theory Spec2Isabelle
  imports Main "HOL-Library.AList" "HOL-Library.Sublist" "HOL-Library.Code_Target_Numeral"
begin

section \<open>JavaScript values, objects and the heap\<close>

text \<open>
  The table controller of \<^verbatim>\<open>src/todoitem/index.js\<close> works on JSON data: request bodies and
  the documents the document store returns. A JavaScript value is modelled by \<open>jsval\<close>; an
  object is its list of own properties in insertion order (an association list), so that
  \<^verbatim>\<open>o.k = v\<close> is \<open>AList.update\<close> and \<^verbatim>\<open>delete o.k\<close> is \<open>AList.delete\<close>.

  The handlers mutate the objects they are given (\<^verbatim>\<open>convertItem\<close> deletes properties of its
  argument, \<^verbatim>\<open>insertItem\<close> writes into \<^verbatim>\<open>req.body\<close>), and two variables may name the same
  object. Objects therefore live in a heap, a function from references to property lists,
  which every operation takes and returns.

  Assumption on the data: objects are JSON data, so no own property shadows the method
  \<^verbatim>\<open>hasOwnProperty\<close> that the handlers call on them.
\<close>

datatype jsval =
    JUndefined
  | JNull
  | JBool bool
  | JNum int
  | JStr string
  | JArr "jsval list"
  | JObj "(string \<times> jsval) list"

type_synonym obj = "(string \<times> jsval) list"

type_synonym ref = nat

type_synonym heap = "ref \<Rightarrow> obj"

text \<open>\<^verbatim>\<open>o.hasOwnProperty(k)\<close>, \<^verbatim>\<open>o.k\<close> (\<^verbatim>\<open>undefined\<close> when absent), \<^verbatim>\<open>o.k = v\<close> and
  \<^verbatim>\<open>delete o.k\<close> on a property list.\<close>

definition hasOwn :: "obj \<Rightarrow> string \<Rightarrow> bool" where
  "hasOwn ob k = (map_of ob k \<noteq> None)"

definition readProp :: "obj \<Rightarrow> string \<Rightarrow> jsval" where
  "readProp ob k = (case map_of ob k of None \<Rightarrow> JUndefined | Some v \<Rightarrow> v)"

text \<open>The same four operations on an object in the heap.\<close>

definition hasOwnProperty :: "heap \<Rightarrow> ref \<Rightarrow> string \<Rightarrow> bool" where
  "hasOwnProperty h r k = hasOwn (h r) k"

definition getProp :: "heap \<Rightarrow> ref \<Rightarrow> string \<Rightarrow> jsval" where
  "getProp h r k = readProp (h r) k"

definition setProp :: "heap \<Rightarrow> ref \<Rightarrow> string \<Rightarrow> jsval \<Rightarrow> heap" where
  "setProp h r k v = h(r := AList.update k v (h r))"

definition deleteProp :: "heap \<Rightarrow> ref \<Rightarrow> string \<Rightarrow> heap" where
  "deleteProp h r k = h(r := AList.delete k (h r))"

text \<open>A thrown JavaScript exception: \<^verbatim>\<open>new Error(msg)\<close>, or the \<^verbatim>\<open>TypeError\<close> of a property
  read on \<^verbatim>\<open>undefined\<close>.\<close>

datatype error = Error string | TypeError string

section \<open>The document mapper: convertItem\<close>

text \<open>
  \<^verbatim>\<open>convertItem(item)\<close> of \<^verbatim>\<open>src/todoitem/index.js\<close>. The two library expressions it
  evaluates are parameters, since the libraries are not part of the repository:
  \<open>toISOString x\<close> is \<^verbatim>\<open>moment.unix(x).toISOString()\<close> and \<open>base64enc x\<close> is
  \<^verbatim>\<open>new Buffer(x).toString('base64')\<close> (always a string).

  The function works on the object it is given: the result is the heap after its
  assignments and deletions, together with the returned reference or the thrown error. When
  \<^verbatim>\<open>_etag\<close> is missing the error is thrown after \<^verbatim>\<open>updatedAt\<close> was written and \<^verbatim>\<open>_ts\<close> deleted.
\<close>

definition convertItem ::
  "(jsval \<Rightarrow> jsval) \<Rightarrow> (jsval \<Rightarrow> string) \<Rightarrow> heap \<Rightarrow> ref \<Rightarrow> (error + ref) \<times> heap" where
  "convertItem toISOString base64enc h item =
     (if hasOwnProperty h item ''_ts'' then
        let h1 = setProp h item ''updatedAt'' (toISOString (getProp h item ''_ts''));
            h2 = deleteProp h1 item ''_ts''
        in if hasOwnProperty h2 item ''_etag'' then
             let h3 = setProp h2 item ''version'' (JStr (base64enc (getProp h2 item ''_etag'')));
                 h4 = deleteProp h3 item ''_etag'';
                 h5 = (if hasOwnProperty h4 item ''_rid'' then deleteProp h4 item ''_rid'' else h4);
                 h6 = (if hasOwnProperty h5 item ''_self'' then deleteProp h5 item ''_self'' else h5);
                 h7 = (if hasOwnProperty h6 item ''_attachments''
                       then deleteProp h6 item ''_attachments'' else h6)
             in (Inr item, h7)
           else (Inl (Error ''Invalid item - no _etag field''), h2)
      else (Inl (Error ''Invalid item - no _ts field''), h))"

section \<open>The request handlers\<close>

text \<open>
  A request as the handlers read it: \<^verbatim>\<open>req.headers\<close> (an object), \<^verbatim>\<open>req.header\<close> and
  \<^verbatim>\<open>req.body\<close> (a reference to the parsed body). \<open>header\<close> holds the own properties of the
  value of \<^verbatim>\<open>req.header\<close>, or \<open>None\<close> when the request object has no such member. On an
  Express request, which is what \<^verbatim>\<open>tableRouter\<close> documents \<^verbatim>\<open>req\<close> to be, \<^verbatim>\<open>req.header\<close> is the
  accessor function \<^verbatim>\<open>req.header(name)\<close>, an object with no property named after a header:
  \<open>Some []\<close>.
\<close>

record request =
  headers :: obj
  header :: "obj option"
  body :: ref

text \<open>
  What a handler does to the outside world: it answers with \<^verbatim>\<open>res.status(s).json(b)\<close>, or
  it calls the store with \<^verbatim>\<open>driver.createDocument(client, table, doc)\<close> or
  \<^verbatim>\<open>driver.replaceDocument(client, docLink, doc)\<close>. A call carries the contents its object
  argument has at the time of the call.
\<close>

datatype action =
    Respond nat obj
  | CreateDocument obj
  | ReplaceDocument jsval obj

text \<open>\<^verbatim>\<open>res.status(status).json(convertItem(document))\<close>: an exception of \<^verbatim>\<open>convertItem\<close>
  leaves the callback.\<close>

definition json_convertItem ::
  "(jsval \<Rightarrow> jsval) \<Rightarrow> (jsval \<Rightarrow> string) \<Rightarrow> heap \<Rightarrow> nat \<Rightarrow> ref \<Rightarrow> (error + action) \<times> heap" where
  "json_convertItem toISOString base64enc h status document =
     (case convertItem toISOString base64enc h document of
        (Inl e, h') \<Rightarrow> (Inl e, h')
      | (Inr item, h') \<Rightarrow> (Inr (Respond status (h' item)), h'))"

text \<open>
  The handlers below are the callbacks that run on the result of
  \<^verbatim>\<open>driver.fetchDocument(refs.client, refs.table, id)\<close>: \<open>document\<close> is the fetched document,
  \<open>None\<close> for \<^verbatim>\<open>undefined\<close> (the query \<^verbatim>\<open>SELECT * FROM root r WHERE r.id=@id\<close> found nothing).
  \<open>id'\<close> is the id of the request path (the handlers' parameter \<^verbatim>\<open>id\<close>).
\<close>

definition getOneItem ::
  "(jsval \<Rightarrow> jsval) \<Rightarrow> (jsval \<Rightarrow> string) \<Rightarrow> heap \<Rightarrow> ref option \<Rightarrow> (error + action) \<times> heap" where
  "getOneItem toISOString base64enc h document =
     (case document of
        None \<Rightarrow> (Inr (Respond 404 [(''error'', JStr ''Not Found'')]), h)
      | Some d \<Rightarrow>
          if getProp h d ''deleted'' = JBool True
          then (Inr (Respond 404 [(''error'', JStr ''Not Found'')]), h)
          else json_convertItem toISOString base64enc h 200 d)"

text \<open>
  The guard \<^verbatim>\<open>req.headers.hasOwnProperty('if-match') && req.header['if-match'] !== version\<close>
  of \<^verbatim>\<open>replaceItem\<close>. The presence test reads \<^verbatim>\<open>req.headers\<close>, the comparison reads
  \<^verbatim>\<open>req.header\<close>; the right operand is evaluated only when the left one holds, and reading a
  property of \<^verbatim>\<open>undefined\<close> throws.
\<close>

definition if_match_guard :: "request \<Rightarrow> jsval \<Rightarrow> error + bool" where
  "if_match_guard req version =
     (if hasOwn (headers req) ''if-match'' then
        (case header req of
           None \<Rightarrow> Inl (TypeError ''Cannot read property if-match of undefined'')
         | Some fn \<Rightarrow> Inr (readProp fn ''if-match'' \<noteq> version))
      else Inr False)"

definition replaceItem ::
  "(jsval \<Rightarrow> jsval) \<Rightarrow> (jsval \<Rightarrow> string) \<Rightarrow> heap \<Rightarrow> request \<Rightarrow> jsval \<Rightarrow> ref option
     \<Rightarrow> (error + action) \<times> heap" where
  "replaceItem toISOString base64enc h req id' document =
     (case document of
        None \<Rightarrow> (Inr (Respond 404 [(''error'', JStr ''Not Found'')]), h)
      | Some d \<Rightarrow>
          let item = body req;
              version = JStr (base64enc (getProp h d ''_etag''))
          in if getProp h item ''id'' \<noteq> id'
             then (Inr (Respond 400 [(''error'', JStr ''Id does not match'')]), h)
             else
               (case if_match_guard req version of
                  Inl e \<Rightarrow> (Inl e, h)
                | Inr True \<Rightarrow> json_convertItem toISOString base64enc h 412 d
                | Inr False \<Rightarrow>
                    if hasOwnProperty h item ''version'' \<and> getProp h item ''version'' \<noteq> version
                    then json_convertItem toISOString base64enc h 409 d
                    else
                      let h1 = deleteProp h item ''updatedAt'';
                          h2 = deleteProp h1 item ''version''
                      in (Inr (ReplaceDocument (getProp h2 d ''_self'') (h2 item)), h2)))"

definition deleteItem ::
  "(jsval \<Rightarrow> jsval) \<Rightarrow> (jsval \<Rightarrow> string) \<Rightarrow> heap \<Rightarrow> ref option \<Rightarrow> (error + action) \<times> heap" where
  "deleteItem toISOString base64enc h document =
     (case document of
        None \<Rightarrow> (Inr (Respond 404 [(''error'', JStr ''Not Found'')]), h)
      | Some d \<Rightarrow>
          (case convertItem toISOString base64enc h d of
             (Inl e, h') \<Rightarrow> (Inl e, h')
           | (Inr item, h0) \<Rightarrow>
               let h1 = deleteProp h0 item ''updatedAt'';
                   h2 = deleteProp h1 item ''version'';
                   h3 = setProp h2 item ''deleted'' (JBool True)
               in (Inr (ReplaceDocument (getProp h3 d ''_self'') (h3 item)), h3)))"


text \<open>\<^verbatim>\<open>insertItem(req, res)\<close>; \<open>now\<close> is \<^verbatim>\<open>moment().toISOString()\<close>, the current time.\<close>

definition insertItem :: "jsval \<Rightarrow> heap \<Rightarrow> request \<Rightarrow> action \<times> heap" where
  "insertItem now h req =
     (let item = body req;
          h1 = setProp h item ''createdAt'' now;
          h2 = deleteProp h1 item ''updatedAt'';
          h3 = deleteProp h2 item ''version'';
          h4 = (if \<not> hasOwnProperty h3 item ''deleted''
                then setProp h3 item ''deleted'' (JBool False) else h3)
      in (CreateDocument (h4 item), h4))"

section \<open>The query translator: rewriting the filter\<close>

text \<open>
  The translation script (\<^verbatim>\<open>src/unnamed/part_000\<close>) rewrites \<^verbatim>\<open>req.query.$filter\<close> before it
  hands it to \<^verbatim>\<open>OData.fromOData\<close>:
  \<^verbatim>\<open>
  while (/updatedAt [a-z]+ '[^']+'/.test(req.query.$filter)) {
      var re = new RegExp(/updatedAt ([a-z]+) '([^']+)'/);
      var results = re.exec(req.query.$filter);
      var newDate = moment(results[2]).unix();
      var newString = `_ts ${results[1]} ${newDate}`;
      req.query.$filter = req.query.$filter.replace(results[0], newString);
  }
  \<close>
  Strings are lists of characters. \<^verbatim>\<open>moment(s).unix()\<close> is a parameter \<open>unix\<close> of the model; its
  value is a JavaScript number, an integer or \<^verbatim>\<open>NaN\<close> (a literal that does not parse).
\<close>

datatype number = Num int | NaN

text \<open>The text of a number in a template literal: decimal digits, with a sign when negative.\<close>

fun digits :: "nat \<Rightarrow> string" where
  "digits n =
     (if n < 10 then [''0123456789'' ! n]
      else digits (n div 10) @ [''0123456789'' ! (n mod 10)])"

definition number_toString :: "number \<Rightarrow> string" where
  "number_toString x =
     (case x of
        NaN \<Rightarrow> ''NaN''
      | Num i \<Rightarrow> if i < 0 then CHR ''-'' # digits (nat (- i)) else digits (nat i))"

text \<open>
  The regular expression \<^verbatim>\<open>/updatedAt ([a-z]+) '([^']+)'/\<close>. \<open>lower\<close> is the class \<^verbatim>\<open>[a-z]\<close> and
  \<open>quote\<close> the character \<^verbatim>\<open>'\<close>. \<open>match_here s\<close> matches the expression at the start of \<open>s\<close> and
  gives the two groups and the text after the match. The match is deterministic: \<^verbatim>\<open>[a-z]+\<close> is
  followed by a space and \<^verbatim>\<open>[^']+\<close> by a quote, neither of which is in the class before it,
  so each class can only take its longest run.
\<close>

definition lower :: "char \<Rightarrow> bool" where
  "lower c = (c \<in> set ''abcdefghijklmnopqrstuvwxyz'')"






text \<open>The template \<^verbatim>\<open>`_ts ${results[1]} ${newDate}`\<close>.\<close>

definition newString :: "(string \<Rightarrow> number) \<Rightarrow> string \<Rightarrow> string \<Rightarrow> string" where
  "newString unix g1 g2 = ''_ts '' @ g1 @ '' '' @ number_toString (unix g2)"








section \<open>The field codec\<close>

text \<open>
  Modelled from the spec: the field codec of the specification's section 4.1,
  \<^verbatim>\<open>encodeTimestamp\<close>, \<^verbatim>\<open>decodeTimestamp\<close>, \<^verbatim>\<open>encodeVersion\<close> and \<^verbatim>\<open>decodeVersion\<close>. The repository
  has no such functions: it calls \<^verbatim>\<open>moment(s).unix()\<close>, \<^verbatim>\<open>moment.unix(n).toISOString()\<close> and
  \<^verbatim>\<open>new Buffer(s).toString('base64')\<close>, library code that is not in its sources, and nothing in
  it decodes a version token. The definitions below follow the specification's words: the
  version token is the base64 text of the etag; \<^verbatim>\<open>encodeTimestamp\<close> parses an ISO-8601 datetime
  and gives the seconds from the Unix epoch to its instant; \<^verbatim>\<open>decodeTimestamp\<close> gives, for every
  non-negative number of seconds, the timestamp of that instant; and the two failures are
  \<^verbatim>\<open>InvalidTimestamp\<close> and \<^verbatim>\<open>InvalidVersionToken\<close>.
\<close>

datatype codec_error = InvalidTimestamp | InvalidVersionToken



fun index_of :: "'a \<Rightarrow> 'a list \<Rightarrow> nat option" where
  "index_of x [] = None"
| "index_of x (y # ys) = (if x = y then Some 0 else map_option Suc (index_of x ys))"






text \<open>
  Timestamps. Dates are those of the proleptic Gregorian calendar, from the year 0000 on. A
  date is counted in days from 0000-01-01 (its day number), a time of day in seconds, and an
  instant in seconds from 1970-01-01T00:00:00Z, the Unix epoch.
\<close>

record timestamp =
  year :: nat
  month :: nat
  day :: nat
  hour :: nat
  minute :: nat
  second :: nat
  millisecond :: nat

definition is_leap :: "nat \<Rightarrow> bool" where
  "is_leap y = (y mod 4 = 0 \<and> (y mod 100 \<noteq> 0 \<or> y mod 400 = 0))"

definition year_days :: "nat \<Rightarrow> nat" where
  "year_days y = (if is_leap y then 366 else 365)"

definition month_days :: "nat \<Rightarrow> nat \<Rightarrow> nat" where
  "month_days y m =
     (if m = 2 then (if is_leap y then 29 else 28)
      else if m = 4 \<or> m = 6 \<or> m = 9 \<or> m = 11 then 30
      else 31)"

text \<open>\<open>sum_lengths len k c\<close> is the length of the \<open>c\<close> periods from \<open>k\<close> on (the days of months
  or years); \<open>split_lengths len n k\<close> finds the period that day \<open>n\<close>, counted from the start of
  period \<open>k\<close>, falls in, and the day within it.\<close>

fun sum_lengths :: "(nat \<Rightarrow> nat) \<Rightarrow> nat \<Rightarrow> nat \<Rightarrow> nat" where
  "sum_lengths len k c = (if c = 0 then 0 else len k + sum_lengths len (k + 1) (c - 1))"

function split_lengths :: "(nat \<Rightarrow> nat) \<Rightarrow> nat \<Rightarrow> nat \<Rightarrow> nat \<times> nat" where
  "split_lengths len n k =
     (if n < len k \<or> len k = 0 then (k, n) else split_lengths len (n - len k) (k + 1))"
  by pat_completeness auto
termination
  by (relation "measure (\<lambda>(len, n, k). n)") auto

declare sum_lengths.simps [simp del] split_lengths.simps [simp del]

text \<open>The days from 0000-01-01 to the first day of year \<open>y\<close>; 1970-01-01 is day 719528.\<close>

definition days_before_year :: "nat \<Rightarrow> nat" where
  "days_before_year y = 365 * y + (y + 3) div 4 + (y + 399) div 400 - (y + 99) div 100"

definition day_number :: "nat \<Rightarrow> nat \<Rightarrow> nat \<Rightarrow> nat" where
  "day_number y m d = days_before_year y + sum_lengths (month_days y) 1 (m - 1) + (d - 1)"

text \<open>The day of the week of a day number, Monday 0 to Sunday 6: day 719528, 1970-01-01, was
  a Thursday. For the week dates of ISO 8601, week 01 of a year is the week, Monday to
  Sunday, that has the year's 4 January in it, and a year has 53 weeks when it begins on a
  Thursday, or is a leap year and begins on a Wednesday, and 52 otherwise.\<close>

definition weekday :: "nat \<Rightarrow> nat" where
  "weekday n = (n + 5) mod 7"

definition week1_monday :: "nat \<Rightarrow> nat" where
  "week1_monday y = days_before_year y + 3 - weekday (days_before_year y + 3)"

definition weeks_in_year :: "nat \<Rightarrow> nat" where
  "weeks_in_year y =
     (if weekday (days_before_year y) = 3 \<or> (is_leap y \<and> weekday (days_before_year y) = 2)
      then 53 else 52)"

text \<open>Decimal fields, written and read. \<open>field w s\<close> reads a field of exactly \<open>w\<close> digits.\<close>

definition digit_char :: "nat \<Rightarrow> char" where
  "digit_char n = ''0123456789'' ! n"

definition digit_val :: "char \<Rightarrow> nat option" where
  "digit_val c = index_of c ''0123456789''"

definition is_digit :: "char \<Rightarrow> bool" where
  "is_digit c = (c \<in> set ''0123456789'')"

definition fmt2 :: "nat \<Rightarrow> string" where
  "fmt2 n = [digit_char (n div 10 mod 10), digit_char (n mod 10)]"

definition fmt3 :: "nat \<Rightarrow> string" where
  "fmt3 n = [digit_char (n div 100 mod 10), digit_char (n div 10 mod 10), digit_char (n mod 10)]"

definition fmt4 :: "nat \<Rightarrow> string" where
  "fmt4 n = [digit_char (n div 1000 mod 10), digit_char (n div 100 mod 10),
             digit_char (n div 10 mod 10), digit_char (n mod 10)]"

fun digits_value :: "nat \<Rightarrow> string \<Rightarrow> nat option" where
  "digits_value acc [] = Some acc"
| "digits_value acc (c # cs) =
     (case digit_val c of None \<Rightarrow> None | Some d \<Rightarrow> digits_value (10 * acc + d) cs)"

definition field :: "nat \<Rightarrow> string \<Rightarrow> nat option" where
  "field w s = (if length s = w then digits_value 0 s else None)"

text \<open>
  Modelled from the spec: the ISO-8601 datetimes \<^verbatim>\<open>encodeTimestamp\<close> parses. The specification
  names the standard and no grammar, so the grammar here is that of ISO 8601's complete
  representations of a date and a time of day, joined by \<^verbatim>\<open>T\<close>, in the extended format (with
  \<^verbatim>\<open>-\<close> and \<^verbatim>\<open>:\<close>) or the basic format (without), the same format throughout:
  \<^item> the date is a calendar date \<^verbatim>\<open>YYYY-MM-DD\<close> (also with an expanded year, \<^verbatim>\<open>+\<close> and six or
    more digits), an ordinal date \<^verbatim>\<open>YYYY-DDD\<close> or a week date \<^verbatim>\<open>YYYY-Www-D\<close>, or one of the
    basic forms \<^verbatim>\<open>YYYYMMDD\<close>, \<^verbatim>\<open>YYYYDDD\<close>, \<^verbatim>\<open>YYYYWwwD\<close>, and is a date of the calendar;
  \<^item> the time is \<^verbatim>\<open>hh\<close>, \<^verbatim>\<open>hh:mm\<close>, \<^verbatim>\<open>hh:mm:ss\<close> or \<^verbatim>\<open>hh:mm:ss\<close> with a decimal fraction of the
    second after \<^verbatim>\<open>.\<close> or \<^verbatim>\<open>,\<close> (basic: \<^verbatim>\<open>hhmm\<close>, \<^verbatim>\<open>hhmmss\<close>), with hours to 23, minutes and
    seconds to 59, or \<^verbatim>\<open>24:00:00\<close> for the end of the day;
  \<^item> the zone is \<^verbatim>\<open>Z\<close> for UTC, an offset \<^verbatim>\<open>+hh:mm\<close>, \<^verbatim>\<open>-hh:mm\<close> (basic: \<^verbatim>\<open>+hhmm\<close>), \<^verbatim>\<open>+hh\<close>, or
    nothing, which is local time.
  The parts are \<open>None\<close> where the text is not of these forms.
\<close>

datatype format = Basic | Extended

datatype zone = Local | Offset int

definition calendar_date :: "nat option \<Rightarrow> nat option \<Rightarrow> nat option \<Rightarrow> nat option" where
  "calendar_date y m d =
     (case (y, m, d) of
        (Some y', Some m', Some d') \<Rightarrow>
          if 1 \<le> m' \<and> m' \<le> 12 \<and> 1 \<le> d' \<and> d' \<le> month_days y' m'
          then Some (day_number y' m' d') else None
      | _ \<Rightarrow> None)"

definition ordinal_date :: "nat option \<Rightarrow> nat option \<Rightarrow> nat option" where
  "ordinal_date y n =
     (case (y, n) of
        (Some y', Some n') \<Rightarrow>
          if 1 \<le> n' \<and> n' \<le> year_days y' then Some (days_before_year y' + (n' - 1)) else None
      | _ \<Rightarrow> None)"

definition week_date :: "nat option \<Rightarrow> nat option \<Rightarrow> nat option \<Rightarrow> nat option" where
  "week_date y w d =
     (case (y, w, d) of
        (Some y', Some w', Some d') \<Rightarrow>
          if 1 \<le> w' \<and> w' \<le> weeks_in_year y' \<and> 1 \<le> d' \<and> d' \<le> 7
          then Some (week1_monday y' + 7 * (w' - 1) + (d' - 1)) else None
      | _ \<Rightarrow> None)"

definition parse_date :: "string \<Rightarrow> (format \<times> nat) option" where
  "parse_date s =
     (if length s = 10 \<and> s ! 4 = CHR ''-'' \<and> s ! 7 = CHR ''-'' then
        map_option (Pair Extended)
          (calendar_date (field 4 (take 4 s)) (field 2 (take 2 (drop 5 s))) (field 2 (drop 8 s)))
      else if 13 \<le> length s \<and> hd s = CHR ''+'' \<and> s ! (length s - 6) = CHR ''-''
              \<and> s ! (length s - 3) = CHR ''-'' then
        map_option (Pair Extended)
          (calendar_date (digits_value 0 (take (length s - 7) (tl s)))
             (field 2 (take 2 (drop (length s - 5) s))) (field 2 (drop (length s - 2) s)))
      else if length s = 10 \<and> s ! 4 = CHR ''-'' \<and> s ! 5 = CHR ''W'' \<and> s ! 8 = CHR ''-'' then
        map_option (Pair Extended)
          (week_date (field 4 (take 4 s)) (field 2 (take 2 (drop 6 s))) (field 1 (drop 9 s)))
      else if length s = 8 \<and> s ! 4 = CHR ''-'' then
        map_option (Pair Extended) (ordinal_date (field 4 (take 4 s)) (field 3 (drop 5 s)))
      else if length s = 8 \<and> s ! 4 = CHR ''W'' then
        map_option (Pair Basic)
          (week_date (field 4 (take 4 s)) (field 2 (take 2 (drop 5 s))) (field 1 (drop 7 s)))
      else if length s = 8 then
        map_option (Pair Basic)
          (calendar_date (field 4 (take 4 s)) (field 2 (take 2 (drop 4 s))) (field 2 (drop 6 s)))
      else if length s = 7 then
        map_option (Pair Basic) (ordinal_date (field 4 (take 4 s)) (field 3 (drop 4 s)))
      else None)"

text \<open>A time of day, as its second of the day and its milliseconds. A fraction of the second
  of any number of digits is read to the millisecond.\<close>

definition time_of_day ::
  "nat option \<Rightarrow> nat option \<Rightarrow> nat option \<Rightarrow> nat option \<Rightarrow> (nat \<times> nat) option" where
  "time_of_day h mi s ms =
     (case (h, mi, s, ms) of
        (Some h', Some mi', Some s', Some ms') \<Rightarrow>
          if (h' < 24 \<and> mi' < 60 \<and> s' < 60) \<or> (h' = 24 \<and> mi' = 0 \<and> s' = 0 \<and> ms' = 0)
          then Some (h' * 3600 + mi' * 60 + s', ms') else None
      | _ \<Rightarrow> None)"

definition fraction :: "string \<Rightarrow> nat option" where
  "fraction s =
     (if s \<noteq> [] \<and> list_all is_digit s then digits_value 0 (take 3 (s @ ''00'')) else None)"

definition parse_time :: "format \<Rightarrow> string \<Rightarrow> (nat \<times> nat) option" where
  "parse_time fmt s =
     (if length s = 2 then time_of_day (field 2 s) (Some 0) (Some 0) (Some 0)
      else if fmt = Extended then
        (if length s = 5 \<and> s ! 2 = CHR '':'' then
           time_of_day (field 2 (take 2 s)) (field 2 (drop 3 s)) (Some 0) (Some 0)
         else if length s = 8 \<and> s ! 2 = CHR '':'' \<and> s ! 5 = CHR '':'' then
           time_of_day (field 2 (take 2 s)) (field 2 (take 2 (drop 3 s))) (field 2 (drop 6 s))
             (Some 0)
         else if 10 \<le> length s \<and> s ! 2 = CHR '':'' \<and> s ! 5 = CHR '':''
                 \<and> (s ! 8 = CHR ''.'' \<or> s ! 8 = CHR '','') then
           time_of_day (field 2 (take 2 s)) (field 2 (take 2 (drop 3 s)))
             (field 2 (take 2 (drop 6 s))) (fraction (drop 9 s))
         else None)
      else
        (if length s = 4 then
           time_of_day (field 2 (take 2 s)) (field 2 (drop 2 s)) (Some 0) (Some 0)
         else if length s = 6 then
           time_of_day (field 2 (take 2 s)) (field 2 (take 2 (drop 2 s))) (field 2 (drop 4 s))
             (Some 0)
         else if 8 \<le> length s \<and> (s ! 6 = CHR ''.'' \<or> s ! 6 = CHR '','') then
           time_of_day (field 2 (take 2 s)) (field 2 (take 2 (drop 2 s)))
             (field 2 (take 2 (drop 4 s))) (fraction (drop 7 s))
         else None))"

text \<open>A zone designator, as minutes east of UTC.\<close>

definition offset :: "char \<Rightarrow> nat option \<Rightarrow> nat option \<Rightarrow> zone option" where
  "offset sign h m =
     (case (h, m) of
        (Some h', Some m') \<Rightarrow>
          if h' < 24 \<and> m' < 60
          then Some (Offset ((if sign = CHR ''-'' then - 1 else 1) * int (h' * 60 + m')))
          else None
      | _ \<Rightarrow> None)"

definition parse_zone :: "format \<Rightarrow> string \<Rightarrow> zone option" where
  "parse_zone fmt s =
     (if s = [] then Some Local
      else if s = ''Z'' then Some (Offset 0)
      else if hd s = CHR ''+'' \<or> hd s = CHR ''-'' then
        (if length s = 3 then offset (hd s) (field 2 (tl s)) (Some 0)
         else if fmt = Extended \<and> length s = 6 \<and> s ! 3 = CHR '':'' then
           offset (hd s) (field 2 (take 2 (tl s))) (field 2 (drop 4 s))
         else if fmt = Basic \<and> length s = 5 then
           offset (hd s) (field 2 (take 2 (tl s))) (field 2 (drop 3 s))
         else None)
      else None)"

text \<open>The parts of a datetime: the date is the text before \<^verbatim>\<open>T\<close>, the time the text after it
  up to the zone designator. The result is the day number, the second of the day, the
  milliseconds and the zone.\<close>

definition parseISO8601 :: "string \<Rightarrow> (nat \<times> nat \<times> nat \<times> zone) option" where
  "parseISO8601 t =
     (let d = takeWhile (\<lambda>c. c \<noteq> CHR ''T'') t;
          r = drop (length d + 1) t;
          tm = takeWhile (\<lambda>c. c \<notin> set ''Z+-'') r;
          z = dropWhile (\<lambda>c. c \<notin> set ''Z+-'') r
      in if length d < length t then
           (case parse_date d of
              None \<Rightarrow> None
            | Some (fmt, dn) \<Rightarrow>
                (case (parse_time fmt tm, parse_zone fmt z) of
                   (Some (sod, ms), Some zn) \<Rightarrow> Some (dn, sod, ms, zn)
                 | _ \<Rightarrow> None))
         else None)"


text \<open>Modelled from the spec: \<^verbatim>\<open>encodeTimestamp(isoString)\<close>, "parses an ISO-8601 datetime,
  fails with \<^verbatim>\<open>InvalidTimestamp\<close> if unparseable", giving integer seconds: the seconds from
  the epoch to the instant the datetime denotes, fractions of a second dropped (in the
  repository: \<^verbatim>\<open>moment(s).unix()\<close>). A datetime without a zone designator is in local time;
  \<open>local_offset dn sod\<close> is the offset of local time from UTC, in minutes, at that day and
  second of the day.\<close>

definition encodeTimestamp :: "(nat \<Rightarrow> nat \<Rightarrow> int) \<Rightarrow> string \<Rightarrow> codec_error + int" where
  "encodeTimestamp local_offset t =
     (case parseISO8601 t of
        None \<Rightarrow> Inl InvalidTimestamp
      | Some (dn, sod, ms, zn) \<Rightarrow>
          Inr ((int dn - 719528) * 86400 + int sod
               - 60 * (case zn of Local \<Rightarrow> local_offset dn sod | Offset m \<Rightarrow> m)))"

text \<open>The calendar fields of a number of seconds since the epoch, in UTC. The year is searched
  from an estimate that is never too large: 400 years have 146097 days. There are no fields
  for an instant before the year 0000.\<close>

definition timestamp_of_seconds :: "int \<Rightarrow> timestamp option" where
  "timestamp_of_seconds s =
     (let d = s div 86400 + 719528;
          sod = nat (s mod 86400)
      in if d < 0 then None
         else
           let n = nat d;
               y0 = 400 * (n - 3) div 146097;
               (y, doy) = split_lengths year_days (n - days_before_year y0) y0;
               (m, dom) = split_lengths (month_days y) doy 1
           in Some \<lparr>year = y, month = m, day = dom + 1, hour = sod div 3600,
                     minute = sod mod 3600 div 60, second = sod mod 60, millisecond = 0\<rparr>)"

text \<open>The text of a timestamp as \<^verbatim>\<open>toISOString\<close> writes it, \<^verbatim>\<open>YYYY-MM-DDTHH:mm:ss.sssZ\<close>; a
  year after 9999 is written expanded, with \<^verbatim>\<open>+\<close> and six digits or more.\<close>

definition fmt_year :: "nat \<Rightarrow> string" where
  "fmt_year y =
     (if y \<le> 9999 then fmt4 y
      else CHR ''+'' # replicate (6 - length (digits y)) (CHR ''0'') @ digits y)"

definition formatISO :: "timestamp \<Rightarrow> string" where
  "formatISO f =
     fmt_year (year f) @ ''-'' @ fmt2 (month f) @ ''-'' @ fmt2 (day f) @ ''T''
     @ fmt2 (hour f) @ '':'' @ fmt2 (minute f) @ '':'' @ fmt2 (second f) @ ''.''
     @ fmt3 (millisecond f) @ ''Z''"

text \<open>Modelled from the spec: \<^verbatim>\<open>decodeTimestamp(seconds)\<close>, "inverse; total function for any
  non-negative integer": the UTC timestamp of the instant, in the form \<^verbatim>\<open>toISOString\<close> writes
  (in the repository: \<^verbatim>\<open>moment.unix(n).toISOString()\<close>). It gives a timestamp for every
  non-negative number of seconds (\<open>decodeTimestamp_total\<close>) and for the negative ones back to
  the year 0000.\<close>

definition decodeTimestamp :: "int \<Rightarrow> codec_error + string" where
  "decodeTimestamp s =
     (case timestamp_of_seconds s of
        None \<Rightarrow> Inl InvalidTimestamp
      | Some f \<Rightarrow> Inr (formatISO f))"






section \<open>Example data\<close>

text \<open>
  The concrete inputs of the evaluations below. \<open>ex_document\<close> is a document as the store
  returns it (the document of the specification's mapping example, with the store's
  metadata), \<open>ex_deleted_document\<close> the same document after a soft delete; \<open>ex_heap document reqbody\<close> holds a fetched document at reference 0 and a
  request body at reference 1; \<open>ex_request hdrs\<close> is an Express request with the headers
  \<open>hdrs\<close> whose body is the object at reference 1. \<open>ex_toISOString\<close> and \<open>ex_base64\<close> give
  the library's values at the arguments that occur: 1500000000 is 2017-07-14T02:40:00Z, the
  base64 encoding of \<^verbatim>\<open>abc\<close> is \<^verbatim>\<open>YWJj\<close>.
\<close>

definition ex_toISOString :: "jsval \<Rightarrow> jsval" where
  "ex_toISOString x = (if x = JNum 1500000000 then JStr ''2017-07-14T02:40:00.000Z'' else JNull)"

definition ex_base64 :: "jsval \<Rightarrow> string" where
  "ex_base64 x = (if x = JStr ''abc'' then ''YWJj'' else ''dW5kZWZpbmVk'')"

definition ex_document :: obj where
  "ex_document =
     [(''id'', JStr ''1''), (''title'', JStr ''t''), (''deleted'', JBool False),
      (''createdAt'', JStr ''2017-01-01T00:00:00.000Z''),
      (''_rid'', JStr ''rid''), (''_self'', JStr ''dbs/a/colls/b/docs/c''),
      (''_etag'', JStr ''abc''), (''_attachments'', JStr ''attachments/''),
      (''_ts'', JNum 1500000000)]"

definition ex_deleted_document :: obj where
  "ex_deleted_document =
     [(''id'', JStr ''1''), (''title'', JStr ''t''), (''deleted'', JBool True),
      (''createdAt'', JStr ''2017-01-01T00:00:00.000Z''),
      (''_rid'', JStr ''rid''), (''_self'', JStr ''dbs/a/colls/b/docs/c''),
      (''_etag'', JStr ''abc''), (''_attachments'', JStr ''attachments/''),
      (''_ts'', JNum 1500000000)]"


text \<open>The offset of local time from UTC in a process whose time zone is UTC.\<close>

definition ex_local_offset :: "nat \<Rightarrow> nat \<Rightarrow> int" where
  "ex_local_offset dn sod = 0"

definition ex_heap :: "obj \<Rightarrow> obj \<Rightarrow> heap" where
  "ex_heap document reqbody = (\<lambda>r. if r = 0 then document else if r = 1 then reqbody else [])"

definition ex_request :: "obj \<Rightarrow> request" where
  "ex_request hdrs = \<lparr>headers = hdrs, header = Some [], body = 1\<rparr>"

section \<open>Properties of the heap operations\<close>

lemma hasOwnProperty_setProp:
  "hasOwnProperty (setProp h r k v) r' k' = ((r' = r \<and> k' = k) \<or> hasOwnProperty h r' k')"
  by (auto simp: hasOwnProperty_def hasOwn_def setProp_def update_conv')

lemma hasOwnProperty_deleteProp:
  "hasOwnProperty (deleteProp h r k) r' k' = (\<not> (r' = r \<and> k' = k) \<and> hasOwnProperty h r' k')"
  by (auto simp: hasOwnProperty_def hasOwn_def deleteProp_def delete_conv')

lemma getProp_setProp:
  "getProp (setProp h r k v) r' k' = (if r' = r \<and> k' = k then v else getProp h r' k')"
  by (auto simp: getProp_def readProp_def setProp_def update_conv')

lemma getProp_deleteProp:
  "getProp (deleteProp h r k) r' k' = (if r' = r \<and> k' = k then JUndefined else getProp h r' k')"
  by (auto simp: getProp_def readProp_def deleteProp_def delete_conv')

lemma map_of_setProp:
  "map_of (setProp h r k v r') k' = (if r' = r \<and> k' = k then Some v else map_of (h r') k')"
  by (auto simp: setProp_def update_conv')

lemma map_of_deleteProp:
  "map_of (deleteProp h r k r') k' = (if r' = r \<and> k' = k then None else map_of (h r') k')"
  by (auto simp: deleteProp_def delete_conv')

lemma setProp_other: "r' \<noteq> r \<Longrightarrow> setProp h r k v r' = h r'"
  by (simp add: setProp_def)

lemma deleteProp_other: "r' \<noteq> r \<Longrightarrow> deleteProp h r k r' = h r'"
  by (simp add: deleteProp_def)

lemmas heap_simps =
  hasOwnProperty_setProp hasOwnProperty_deleteProp getProp_setProp getProp_deleteProp
  map_of_setProp map_of_deleteProp


section \<open>Properties of convertItem\<close>

lemma convertItem_success:
  assumes "hasOwnProperty h item ''_ts''" "hasOwnProperty h item ''_etag''"
  shows "fst (convertItem toISOString base64enc h item) = Inr item"
    and "getProp (snd (convertItem toISOString base64enc h item)) item ''updatedAt''
           = toISOString (getProp h item ''_ts'')"
    and "getProp (snd (convertItem toISOString base64enc h item)) item ''version''
           = JStr (base64enc (getProp h item ''_etag''))"
    and "k \<in> {''_ts'', ''_etag'', ''_rid'', ''_self'', ''_attachments''} \<Longrightarrow>
           \<not> hasOwnProperty (snd (convertItem toISOString base64enc h item)) item k"
    and "k \<notin> {''updatedAt'', ''version'', ''_ts'', ''_etag'', ''_rid'', ''_self'', ''_attachments''} \<Longrightarrow>
           map_of (snd (convertItem toISOString base64enc h item) item) k = map_of (h item) k"
  using assms by (auto simp: convertItem_def Let_def heap_simps)

lemma convertItem_frame: "r' \<noteq> item \<Longrightarrow> snd (convertItem toISOString base64enc h item) r' = h r'"
  by (simp add: convertItem_def Let_def setProp_other deleteProp_other)

lemma convertItem_failure:
  "\<not> hasOwnProperty h item ''_ts'' \<Longrightarrow>
     fst (convertItem toISOString base64enc h item) = Inl (Error ''Invalid item - no _ts field'')"
  "hasOwnProperty h item ''_ts'' \<Longrightarrow> \<not> hasOwnProperty h item ''_etag'' \<Longrightarrow>
     fst (convertItem toISOString base64enc h item) = Inl (Error ''Invalid item - no _etag field'')"
  by (auto simp: convertItem_def Let_def heap_simps)

lemma json_convertItem_success:
  assumes "hasOwnProperty h d ''_ts''" "hasOwnProperty h d ''_etag''"
  shows "json_convertItem toISOString base64enc h status d =
           (Inr (Respond status (snd (convertItem toISOString base64enc h d) d)),
            snd (convertItem toISOString base64enc h d))"
  using convertItem_success(1) [OF assms, of toISOString base64enc]
  by (cases "convertItem toISOString base64enc h d") (simp add: json_convertItem_def)

lemma json_convertItem_status:
  "fst (json_convertItem toISOString base64enc h status d) = Inr (Respond s b) \<Longrightarrow> s = status"
  by (auto simp: json_convertItem_def split: prod.splits sum.splits)

lemmas ex_eval = ex_toISOString_def ex_base64_def ex_document_def ex_deleted_document_def
  ex_heap_def ex_request_def
  convertItem_def json_convertItem_def if_match_guard_def replaceItem_def deleteItem_def
  getOneItem_def insertItem_def Let_def
  hasOwnProperty_def hasOwn_def getProp_def readProp_def setProp_def deleteProp_def


section \<open>Properties of the filter rewrite\<close>

declare digits.simps [simp del]

lemma digit_char: "d < 10 \<Longrightarrow> ''0123456789'' ! d \<in> set ''0123456789''"
  by (rule nth_mem) simp

lemma lower_chars: "lower c \<Longrightarrow> c \<in> set ''abcdefghijklmnopqrstuvwxyz''"
  by (simp add: lower_def)


lemma set_digits: "set (digits n) \<subseteq> set ''0123456789''"
proof (induction n rule: digits.induct)
  case (1 n)
  show ?case
  proof (cases "n < 10")
    case True
    then show ?thesis
      using digit_char [of n] by (subst digits.simps) simp
  next
    case False
    have "n mod 10 < 10" by simp
    then have "''0123456789'' ! (n mod 10) \<in> set ''0123456789''" by (rule digit_char)
    with False 1 show ?thesis
      by (subst digits.simps) simp
  qed
qed


lemma set_number_toString: "set (number_toString x) \<subseteq> set ''-0123456789Na''"
proof (cases x)
  case NaN
  then show ?thesis by (simp add: number_toString_def)
next
  case (Num i)
  have "set ''0123456789'' \<subseteq> set ''-0123456789Na''" by simp
  then have d: "set (digits n) \<subseteq> set ''-0123456789Na''" for n
    using set_digits [of n] by (rule order_trans [rotated])
  have m: "CHR ''-'' \<in> set ''-0123456789Na''" by simp
  show ?thesis
  proof (cases "i < 0")
    case True
    then have "number_toString x = CHR ''-'' # digits (nat (- i))"
      by (simp add: number_toString_def Num)
    then show ?thesis using d [of "nat (- i)"] m by simp
  next
    case False
    then have "number_toString x = digits (nat i)"
      by (simp add: number_toString_def Num)
    then show ?thesis using d [of "nat i"] by simp
  qed
qed








lemma newString_no_dollar:
  assumes "list_all lower g1"
  shows "CHR ''$'' \<notin> set (newString unix g1 g2)"
proof -
  have "CHR ''$'' \<notin> set g1"
    using assms lower_chars [of "CHR ''$''"] by (auto simp: list_all_iff)
  moreover have "CHR ''$'' \<notin> set (number_toString (unix g2))"
    using set_number_toString [of "unix g2"] by auto
  ultimately show ?thesis by (simp add: newString_def)
qed






















section \<open>Properties of the field codec\<close>





















































lemma decodeTimestamp_total: "0 \<le> n \<Longrightarrow> \<exists>s. decodeTimestamp n = Inr s"
proof -
  assume "0 \<le> n"
  then have "0 \<le> n div 86400" by (simp add: pos_imp_zdiv_nonneg_iff)
  then have "\<not> n div 86400 + 719528 < 0" by linarith
  then show ?thesis
    by (simp add: decodeTimestamp_def timestamp_of_seconds_def Let_def split: prod.splits)
qed




lemmas codec_eval = encodeTimestamp_def parseISO8601_def parse_date_def parse_time_def
  parse_zone_def offset_def field_def calendar_date_def ordinal_date_def week_date_def
  time_of_day_def fraction_def is_digit_def digit_val_def month_days_def year_days_def
  is_leap_def day_number_def days_before_year_def week1_monday_def weeks_in_year_def
  weekday_def sum_lengths.simps ex_local_offset_def



lemma encodeTimestamp_forms:
  "encodeTimestamp ex_local_offset ''2017-07-14T04:40:00+02:00'' = Inr 1500000000"
  "encodeTimestamp ex_local_offset ''2017-07-13T22:10-04:30'' = Inr 1500000000"
  "encodeTimestamp ex_local_offset ''20170714T024000Z'' = Inr 1500000000"
  "encodeTimestamp ex_local_offset ''2017-195T02:40:00Z'' = Inr 1500000000"
  "encodeTimestamp ex_local_offset ''2017-W28-5T02:40:00Z'' = Inr 1500000000"
  "encodeTimestamp ex_local_offset ''2017-07-13T24:00:00Z'' = Inr 1499990400"
  "encodeTimestamp ex_local_offset ''+010000-01-01T00:00:00Z'' = Inr 253402300800"
  "encodeTimestamp ex_local_offset ''1969-12-31T23:59:59.999Z'' = Inr (- 1)"
  "encodeTimestamp ex_local_offset ''2017-02-29T00:00:00Z'' = Inl InvalidTimestamp"
  "encodeTimestamp ex_local_offset ''2017-07-14 02:40:00'' = Inl InvalidTimestamp"
  "encodeTimestamp ex_local_offset ''yesterday'' = Inl InvalidTimestamp"
  by (simp_all add: codec_eval)

text \<open>\<open>ex_unix\<close>, the values of \<^verbatim>\<open>moment(s).unix()\<close> in the filter examples, agrees with the
  codec: the two literals denote these seconds, and the text between two clauses is no
  timestamp.\<close>

lemma ex_unix_encodeTimestamp:
  "encodeTimestamp ex_local_offset ''2017-02-03T00:00:00.000'' = Inr 1486080000"
  "encodeTimestamp ex_local_offset ''2017-03-01T00:00:00.000'' = Inr 1488326400"
  "encodeTimestamp ex_local_offset '' and updatedAt ge '' = Inl InvalidTimestamp"
  by (simp_all add: codec_eval)

lemma decodeTimestamp_examples:
  "decodeTimestamp 0 = Inr ''1970-01-01T00:00:00.000Z''"
  "decodeTimestamp (- 1) = Inr ''1969-12-31T23:59:59.000Z''"
  "decodeTimestamp 253402300799 = Inr ''9999-12-31T23:59:59.000Z''"
  "decodeTimestamp 253402300800 = Inr ''+010000-01-01T00:00:00.000Z''"
  by (simp_all add: decodeTimestamp_def timestamp_of_seconds_def Let_def split_lengths.simps
      days_before_year_def year_days_def month_days_def is_leap_def formatISO_def fmt_year_def
      fmt2_def fmt3_def fmt4_def digit_char_def digits.simps)


section \<open>The claims\<close>

text \<open>
  C1. Mapping a store document to a public item (\<^verbatim>\<open>convertItem\<close>) needs \<^verbatim>\<open>_ts\<close> and \<^verbatim>\<open>_etag\<close>
  and fails otherwise. When both are present it returns the object it was given, with
  \<^verbatim>\<open>updatedAt\<close> set to the ISO-8601 rendering of \<^verbatim>\<open>_ts\<close>, \<^verbatim>\<open>version\<close> set to the base64
  encoding of \<^verbatim>\<open>_etag\<close>, the properties \<^verbatim>\<open>_ts\<close>, \<^verbatim>\<open>_etag\<close>, \<^verbatim>\<open>_rid\<close>, \<^verbatim>\<open>_self\<close> and
  \<^verbatim>\<open>_attachments\<close> removed and every other property as it was. A document without \<^verbatim>\<open>_ts\<close>
  fails with \<^verbatim>\<open>Error('Invalid item - no _ts field')\<close>, one with \<^verbatim>\<open>_ts\<close> and without \<^verbatim>\<open>_etag\<close>
  with \<^verbatim>\<open>Error('Invalid item - no _etag field')\<close>; so every document lacking \<^verbatim>\<open>_etag\<close>
  fails (the specification's MalformedDocument is this thrown \<^verbatim>\<open>Error\<close>). No other object of
  the heap changes.
\<close>

theorem convertItem_maps_document:
  assumes "convertItem toISOString base64enc h item = (r, h')"
  shows "(hasOwnProperty h item ''_ts'' \<and> hasOwnProperty h item ''_etag'' \<longrightarrow>
            r = Inr item
          \<and> getProp h' item ''updatedAt'' = toISOString (getProp h item ''_ts'')
          \<and> getProp h' item ''version'' = JStr (base64enc (getProp h item ''_etag''))
          \<and> (\<forall>k \<in> {''_ts'', ''_etag'', ''_rid'', ''_self'', ''_attachments''}.
                \<not> hasOwnProperty h' item k)
          \<and> (\<forall>k. k \<notin> {''updatedAt'', ''version'', ''_ts'', ''_etag'', ''_rid'', ''_self'',
                        ''_attachments''} \<longrightarrow> map_of (h' item) k = map_of (h item) k))
       \<and> (\<not> hasOwnProperty h item ''_ts'' \<longrightarrow> r = Inl (Error ''Invalid item - no _ts field''))
       \<and> (hasOwnProperty h item ''_ts'' \<and> \<not> hasOwnProperty h item ''_etag'' \<longrightarrow>
            r = Inl (Error ''Invalid item - no _etag field''))
       \<and> (\<not> hasOwnProperty h item ''_etag'' \<longrightarrow> (\<exists>msg. r = Inl (Error msg)))
       \<and> (\<forall>r'. r' \<noteq> item \<longrightarrow> h' r' = h r')"
proof -
  have r: "r = fst (convertItem toISOString base64enc h item)"
    and h': "h' = snd (convertItem toISOString base64enc h item)"
    using assms by simp_all
  show ?thesis
    unfolding r h'
    by (cases "hasOwnProperty h item ''_ts''"; cases "hasOwnProperty h item ''_etag''")
      (simp_all add: convertItem_success convertItem_failure convertItem_frame)
qed


theorem convertItem_maps_document_witness:
  "hasOwnProperty (ex_heap ex_document []) 0 ''_ts''
   \<and> hasOwnProperty (ex_heap ex_document []) 0 ''_etag''
   \<and> fst (convertItem ex_toISOString ex_base64 (ex_heap ex_document []) 0) = Inr 0
   \<and> getProp (snd (convertItem ex_toISOString ex_base64 (ex_heap ex_document []) 0)) 0 ''updatedAt''
       = JStr ''2017-07-14T02:40:00.000Z''
   \<and> getProp (snd (convertItem ex_toISOString ex_base64 (ex_heap ex_document []) 0)) 0 ''version''
       = JStr ''YWJj''
   \<and> \<not> hasOwnProperty (snd (convertItem ex_toISOString ex_base64 (ex_heap ex_document []) 0)) 0 ''_self''
   \<and> map_of (snd (convertItem ex_toISOString ex_base64 (ex_heap ex_document []) 0) 0) ''title''
       = Some (JStr ''t'')
   \<and> \<not> hasOwnProperty (ex_heap [(''id'', JStr ''2''), (''_ts'', JNum 3)] []) 0 ''_etag''
   \<and> fst (convertItem ex_toISOString ex_base64 (ex_heap [(''id'', JStr ''2''), (''_ts'', JNum 3)] []) 0)
       = Inl (Error ''Invalid item - no _etag field'')"
  using convertItem_maps_document [where toISOString = ex_toISOString and base64enc = ex_base64
      and h = "ex_heap ex_document []" and item = 0, OF prod.collapse [symmetric]]
    convertItem_maps_document [where toISOString = ex_toISOString and base64enc = ex_base64
      and h = "ex_heap [(''id'', JStr ''2''), (''_ts'', JNum 3)] []" and item = 0,
      OF prod.collapse [symmetric]]
  by (simp add: ex_toISOString_def ex_base64_def ex_document_def ex_heap_def hasOwnProperty_def
      hasOwn_def getProp_def readProp_def)

text \<open>
  C2, as the code has it. The body's version is compared only after the earlier guards of
  \<^verbatim>\<open>replaceItem\<close>: the document was fetched (and, being a store document, has \<^verbatim>\<open>_ts\<close> and
  \<^verbatim>\<open>_etag\<close>), the body's id equals the id of the path, and the request has no \<^verbatim>\<open>if-match\<close>
  header. Then a body whose \<^verbatim>\<open>version\<close> differs from the base64 of the fetched \<^verbatim>\<open>_etag\<close> is
  answered 409 with the converted current document, and no replace is issued; a body with no
  \<^verbatim>\<open>version\<close> is handed to \<^verbatim>\<open>driver.replaceDocument\<close>.
\<close>

theorem replaceItem_body_version_check:
  assumes "hasOwnProperty h d ''_ts''" and "hasOwnProperty h d ''_etag''"
    and "getProp h (body req) ''id'' = id'"
    and "\<not> hasOwn (headers req) ''if-match''"
  shows "(hasOwnProperty h (body req) ''version''
            \<and> getProp h (body req) ''version'' \<noteq> JStr (base64enc (getProp h d ''_etag'')) \<longrightarrow>
          replaceItem toISOString base64enc h req id' (Some d)
            = (Inr (Respond 409 (snd (convertItem toISOString base64enc h d) d)),
               snd (convertItem toISOString base64enc h d)))
       \<and> (\<not> hasOwnProperty h (body req) ''version'' \<longrightarrow>
            (\<exists>link doc h'. replaceItem toISOString base64enc h req id' (Some d)
               = (Inr (ReplaceDocument link doc), h')))"
  using assms(3,4)
  by (simp add: replaceItem_def if_match_guard_def Let_def json_convertItem_success [OF assms(1,2)])

theorem replaceItem_body_version_check_witness:
  "hasOwnProperty (ex_heap ex_document [(''id'', JStr ''1''), (''version'', JStr ''b2xk'')]) 0 ''_ts''
   \<and> hasOwnProperty (ex_heap ex_document [(''id'', JStr ''1''), (''version'', JStr ''b2xk'')]) 0 ''_etag''
   \<and> getProp (ex_heap ex_document [(''id'', JStr ''1''), (''version'', JStr ''b2xk'')])
        (body (ex_request [])) ''id'' = JStr ''1''
   \<and> \<not> hasOwn (headers (ex_request [])) ''if-match''
   \<and> hasOwnProperty (ex_heap ex_document [(''id'', JStr ''1''), (''version'', JStr ''b2xk'')])
        (body (ex_request [])) ''version''
   \<and> fst (replaceItem ex_toISOString ex_base64
          (ex_heap ex_document [(''id'', JStr ''1''), (''version'', JStr ''b2xk'')])
          (ex_request []) (JStr ''1'') (Some 0))
       = Inr (Respond 409
           [(''id'', JStr ''1''), (''title'', JStr ''t''), (''deleted'', JBool False),
            (''createdAt'', JStr ''2017-01-01T00:00:00.000Z''),
            (''updatedAt'', JStr ''2017-07-14T02:40:00.000Z''), (''version'', JStr ''YWJj'')])
   \<and> \<not> hasOwnProperty (ex_heap ex_document [(''id'', JStr ''1'')]) (body (ex_request [])) ''version''
   \<and> (\<exists>link doc h'. replaceItem ex_toISOString ex_base64 (ex_heap ex_document [(''id'', JStr ''1'')])
          (ex_request []) (JStr ''1'') (Some 0) = (Inr (ReplaceDocument link doc), h'))"
proof -
  let ?h = "ex_heap ex_document [(''id'', JStr ''1''), (''version'', JStr ''b2xk'')]"
  let ?g = "ex_heap ex_document [(''id'', JStr ''1'')]"
  have a: "hasOwnProperty ?h 0 ''_ts''" "hasOwnProperty ?h 0 ''_etag''"
    "getProp ?h (body (ex_request [])) ''id'' = JStr ''1''"
    "\<not> hasOwn (headers (ex_request [])) ''if-match''"
    "hasOwnProperty ?h (body (ex_request [])) ''version''"
    "getProp ?h (body (ex_request [])) ''version'' \<noteq> JStr (ex_base64 (getProp ?h 0 ''_etag''))"
    by (simp_all add: ex_eval)
  have b: "hasOwnProperty ?g 0 ''_ts''" "hasOwnProperty ?g 0 ''_etag''"
    "getProp ?g (body (ex_request [])) ''id'' = JStr ''1''"
    "\<not> hasOwnProperty ?g (body (ex_request [])) ''version''"
    by (simp_all add: ex_eval)
  have c: "snd (convertItem ex_toISOString ex_base64 ?h 0) 0 =
           [(''id'', JStr ''1''), (''title'', JStr ''t''), (''deleted'', JBool False),
            (''createdAt'', JStr ''2017-01-01T00:00:00.000Z''),
            (''updatedAt'', JStr ''2017-07-14T02:40:00.000Z''), (''version'', JStr ''YWJj'')]"
    by (simp add: ex_eval)
  show ?thesis
    using replaceItem_body_version_check [OF a(1,2,3,4),
        where toISOString = ex_toISOString and base64enc = ex_base64]
      replaceItem_body_version_check [OF b(1,2,3) a(4),
        where toISOString = ex_toISOString and base64enc = ex_base64]
      a b c by simp
qed

text \<open>
  C2 as stated, for every request with a differing body version, fails where an earlier
  guard answers first. With the path id \<^verbatim>\<open>1\<close> and the current version \<^verbatim>\<open>YWJj\<close>: a body with
  id \<^verbatim>\<open>2\<close> is answered 400, whether its version differs or is absent (so the replace does not
  always proceed without a version); and a request whose \<^verbatim>\<open>if-match\<close> header and body version
  both differ is answered 412.
\<close>

theorem replaceItem_version_mismatch_counterexample:
  "hasOwnProperty (ex_heap ex_document [(''id'', JStr ''2''), (''version'', JStr ''b2xk'')]) 1 ''version''
   \<and> getProp (ex_heap ex_document [(''id'', JStr ''2''), (''version'', JStr ''b2xk'')]) 1 ''version''
       \<noteq> JStr (ex_base64 (getProp (ex_heap ex_document [(''id'', JStr ''2''), (''version'', JStr ''b2xk'')]) 0 ''_etag''))
   \<and> fst (replaceItem ex_toISOString ex_base64
          (ex_heap ex_document [(''id'', JStr ''2''), (''version'', JStr ''b2xk'')])
          (ex_request []) (JStr ''1'') (Some 0))
       = Inr (Respond 400 [(''error'', JStr ''Id does not match'')])
   \<and> \<not> hasOwnProperty (ex_heap ex_document [(''id'', JStr ''2'')]) 1 ''version''
   \<and> fst (replaceItem ex_toISOString ex_base64 (ex_heap ex_document [(''id'', JStr ''2'')])
          (ex_request []) (JStr ''1'') (Some 0))
       = Inr (Respond 400 [(''error'', JStr ''Id does not match'')])
   \<and> fst (replaceItem ex_toISOString ex_base64
          (ex_heap ex_document [(''id'', JStr ''1''), (''version'', JStr ''b2xk'')])
          (ex_request [(''if-match'', JStr ''b2xk'')]) (JStr ''1'') (Some 0))
       = Inr (Respond 412
           [(''id'', JStr ''1''), (''title'', JStr ''t''), (''deleted'', JBool False),
            (''createdAt'', JStr ''2017-01-01T00:00:00.000Z''),
            (''updatedAt'', JStr ''2017-07-14T02:40:00.000Z''), (''version'', JStr ''YWJj'')])"
  by (simp add: ex_eval)




text \<open>
  C3 at a request the claim is about: an Express request whose \<^verbatim>\<open>if-match\<close> header equals
  the current version \<^verbatim>\<open>YWJj\<close>. The claim lets the replace proceed. The guard compares
  \<^verbatim>\<open>req.header['if-match']\<close>, a property of the accessor function and so \<^verbatim>\<open>undefined\<close>, with
  the version: the answer is 412. On a request object without a member \<^verbatim>\<open>header\<close> the
  comparison throws.
\<close>

theorem replaceItem_if_match_equal_example:
  "readProp (headers (ex_request [(''if-match'', JStr ''YWJj'')])) ''if-match''
     = JStr (ex_base64 (getProp (ex_heap ex_document [(''id'', JStr ''1''), (''title'', JStr ''new'')]) 0 ''_etag''))
   \<and> fst (replaceItem ex_toISOString ex_base64
          (ex_heap ex_document [(''id'', JStr ''1''), (''title'', JStr ''new'')])
          (ex_request [(''if-match'', JStr ''YWJj'')]) (JStr ''1'') (Some 0))
       = Inr (Respond 412
           [(''id'', JStr ''1''), (''title'', JStr ''t''), (''deleted'', JBool False),
            (''createdAt'', JStr ''2017-01-01T00:00:00.000Z''),
            (''updatedAt'', JStr ''2017-07-14T02:40:00.000Z''), (''version'', JStr ''YWJj'')])
   \<and> fst (replaceItem ex_toISOString ex_base64
          (ex_heap ex_document [(''id'', JStr ''1''), (''title'', JStr ''new'')])
          ((ex_request [(''if-match'', JStr ''YWJj'')])\<lparr>header := None\<rparr>) (JStr ''1'') (Some 0))
       = Inl (TypeError ''Cannot read property if-match of undefined'')"
  by (simp add: ex_eval)

text \<open>
  C4 at a soft-deleted document. For a fetched document with \<^verbatim>\<open>deleted: true\<close>, \<^verbatim>\<open>getOneItem\<close>
  answers 404 (\<^verbatim>\<open>typeof document === 'undefined' || document.deleted === true\<close>), but
  \<^verbatim>\<open>replaceItem\<close>, whose guard tests only \<^verbatim>\<open>typeof document === 'undefined'\<close>, goes on and
  issues the replace with the request body, which has no \<^verbatim>\<open>deleted\<close> field. The rest of the
  claim holds here: an absent document is answered 404 on both paths with no replace, and
  \<^verbatim>\<open>deleteItem\<close> does not refuse a document with \<^verbatim>\<open>deleted: true\<close>.
\<close>

theorem replaceItem_deleted_document_example:
  "getProp (ex_heap ex_deleted_document [(''id'', JStr ''1''), (''title'', JStr ''new'')]) 0 ''deleted''
     = JBool True
   \<and> fst (getOneItem ex_toISOString ex_base64
          (ex_heap ex_deleted_document [(''id'', JStr ''1''), (''title'', JStr ''new'')]) (Some 0))
       = Inr (Respond 404 [(''error'', JStr ''Not Found'')])
   \<and> fst (replaceItem ex_toISOString ex_base64
          (ex_heap ex_deleted_document [(''id'', JStr ''1''), (''title'', JStr ''new'')])
          (ex_request []) (JStr ''1'') (Some 0))
       = Inr (ReplaceDocument (JStr ''dbs/a/colls/b/docs/c'')
               [(''id'', JStr ''1''), (''title'', JStr ''new'')])
   \<and> replaceItem ex_toISOString ex_base64
          (ex_heap ex_deleted_document [(''id'', JStr ''1''), (''title'', JStr ''new'')])
          (ex_request []) (JStr ''1'') None
       = (Inr (Respond 404 [(''error'', JStr ''Not Found'')]),
          ex_heap ex_deleted_document [(''id'', JStr ''1''), (''title'', JStr ''new'')])
   \<and> deleteItem ex_toISOString ex_base64 (ex_heap ex_deleted_document []) None
       = (Inr (Respond 404 [(''error'', JStr ''Not Found'')]), ex_heap ex_deleted_document [])
   \<and> fst (deleteItem ex_toISOString ex_base64 (ex_heap ex_deleted_document []) (Some 0))
       = Inr (ReplaceDocument JUndefined
               [(''id'', JStr ''1''), (''title'', JStr ''t''), (''deleted'', JBool True),
                (''createdAt'', JStr ''2017-01-01T00:00:00.000Z'')])"
  by (simp add: ex_eval)

text \<open>
  C5 at an existing document. \<^verbatim>\<open>deleteItem\<close> builds the right replacement (the existing
  fields with \<^verbatim>\<open>deleted: true\<close>), but hands it to \<^verbatim>\<open>driver.replaceDocument\<close> with the link
  \<^verbatim>\<open>undefined\<close>, not with the document's \<^verbatim>\<open>_self\<close>, which \<^verbatim>\<open>replaceItem\<close> passes for the same
  document: the stored document is not addressed, so it is not replaced. \<^verbatim>\<open>getOneItem\<close> answers
  404 for a fetched document with \<^verbatim>\<open>deleted: true\<close>, as the claim says, and 200 for the stored
  document as it still is.
\<close>

theorem deleteItem_replace_link_example:
  "fst (deleteItem ex_toISOString ex_base64 (ex_heap ex_document []) (Some 0))
     = Inr (ReplaceDocument JUndefined
         [(''id'', JStr ''1''), (''title'', JStr ''t''), (''deleted'', JBool True),
          (''createdAt'', JStr ''2017-01-01T00:00:00.000Z'')])
   \<and> getProp (ex_heap ex_document []) 0 ''_self'' = JStr ''dbs/a/colls/b/docs/c''
   \<and> fst (replaceItem ex_toISOString ex_base64
          (ex_heap ex_document [(''id'', JStr ''1''), (''title'', JStr ''new'')])
          (ex_request []) (JStr ''1'') (Some 0))
       = Inr (ReplaceDocument (JStr ''dbs/a/colls/b/docs/c'')
               [(''id'', JStr ''1''), (''title'', JStr ''new'')])
   \<and> fst (getOneItem ex_toISOString ex_base64 (ex_heap ex_deleted_document []) (Some 0))
       = Inr (Respond 404 [(''error'', JStr ''Not Found'')])
   \<and> fst (getOneItem ex_toISOString ex_base64 (ex_heap ex_document []) (Some 0))
       = Inr (Respond 200
           [(''id'', JStr ''1''), (''title'', JStr ''t''), (''deleted'', JBool False),
            (''createdAt'', JStr ''2017-01-01T00:00:00.000Z''),
            (''updatedAt'', JStr ''2017-07-14T02:40:00.000Z''), (''version'', JStr ''YWJj'')])"
  by (simp add: ex_eval)

text \<open>
  C8 at a body whose \<^verbatim>\<open>deleted\<close> is not a boolean. \<^verbatim>\<open>insertItem\<close> sets \<^verbatim>\<open>createdAt\<close> and removes
  \<^verbatim>\<open>version\<close>, but \<^verbatim>\<open>deleted\<close> is defaulted only when the property is absent: the string stays.
\<close>

theorem insertItem_non_boolean_deleted_example:
  "fst (insertItem (JStr ''2017-02-03T04:05:06.789Z'')
          (ex_heap [] [(''id'', JStr ''x''), (''title'', JStr ''t''), (''deleted'', JStr ''yes''),
                       (''version'', JStr ''YWJj'')])
          (ex_request []))
     = CreateDocument
         [(''id'', JStr ''x''), (''title'', JStr ''t''), (''deleted'', JStr ''yes''),
          (''createdAt'', JStr ''2017-02-03T04:05:06.789Z'')]"
  by (simp add: ex_eval)

text \<open>
  C9, as the code has it. When \<^verbatim>\<open>replaceItem\<close> issues the replace, the document it hands to
  the store is the request body without \<^verbatim>\<open>updatedAt\<close> and \<^verbatim>\<open>version\<close>, every other property
  as the body has it. Its \<^verbatim>\<open>createdAt\<close> is therefore the body's (\<^verbatim>\<open>undefined\<close> when the body has
  none); the stored document's \<^verbatim>\<open>createdAt\<close> is not consulted.
\<close>

theorem replaceItem_hands_body:
  assumes "replaceItem toISOString base64enc h req id' document = (Inr (ReplaceDocument link doc), h')"
  shows "doc = AList.delete ''version'' (AList.delete ''updatedAt'' (h (body req)))
       \<and> (\<forall>k. map_of doc k = (if k \<in> {''updatedAt'', ''version''} then None
                               else map_of (h (body req)) k))
       \<and> readProp doc ''createdAt'' = getProp h (body req) ''createdAt''"
proof -
  have doc: "doc = AList.delete ''version'' (AList.delete ''updatedAt'' (h (body req)))"
    using assms
    by (auto simp: replaceItem_def Let_def json_convertItem_def deleteProp_def
        split: option.splits if_splits sum.splits bool.splits prod.splits)
  show ?thesis
    unfolding doc by (auto simp: delete_conv' getProp_def readProp_def)
qed

theorem replaceItem_hands_body_witness:
  "replaceItem ex_toISOString ex_base64
          (ex_heap ex_document
             [(''id'', JStr ''1''), (''createdAt'', JStr ''1999-12-31T00:00:00.000Z''),
              (''version'', JStr ''YWJj'')])
          (ex_request []) (JStr ''1'') (Some 0)
     = (Inr (ReplaceDocument (JStr ''dbs/a/colls/b/docs/c'')
               [(''id'', JStr ''1''), (''createdAt'', JStr ''1999-12-31T00:00:00.000Z'')]),
        snd (replaceItem ex_toISOString ex_base64
          (ex_heap ex_document
             [(''id'', JStr ''1''), (''createdAt'', JStr ''1999-12-31T00:00:00.000Z''),
              (''version'', JStr ''YWJj'')])
          (ex_request []) (JStr ''1'') (Some 0)))
   \<and> readProp [(''id'', JStr ''1''), (''createdAt'', JStr ''1999-12-31T00:00:00.000Z'')] ''createdAt''
       = getProp (ex_heap ex_document
             [(''id'', JStr ''1''), (''createdAt'', JStr ''1999-12-31T00:00:00.000Z''),
              (''version'', JStr ''YWJj'')]) (body (ex_request [])) ''createdAt''"
proof -
  let ?h = "ex_heap ex_document
             [(''id'', JStr ''1''), (''createdAt'', JStr ''1999-12-31T00:00:00.000Z''),
              (''version'', JStr ''YWJj'')]"
  have f: "fst (replaceItem ex_toISOString ex_base64 ?h (ex_request []) (JStr ''1'') (Some 0))
     = Inr (ReplaceDocument (JStr ''dbs/a/colls/b/docs/c'')
               [(''id'', JStr ''1''), (''createdAt'', JStr ''1999-12-31T00:00:00.000Z'')])"
    by (simp add: ex_eval)
  have e: "replaceItem ex_toISOString ex_base64 ?h (ex_request []) (JStr ''1'') (Some 0)
     = (Inr (ReplaceDocument (JStr ''dbs/a/colls/b/docs/c'')
               [(''id'', JStr ''1''), (''createdAt'', JStr ''1999-12-31T00:00:00.000Z'')]),
        snd (replaceItem ex_toISOString ex_base64 ?h (ex_request []) (JStr ''1'') (Some 0)))"
    using f by (metis prod.collapse)
  show ?thesis
    using replaceItem_hands_body [OF e] e by blast
qed

text \<open>
  C9 as stated fails: the stored document was created at 2017-01-01, the body supplies a
  \<^verbatim>\<open>createdAt\<close> of 1999-12-31, and the document handed to the replace call carries the body's
  value.
\<close>

theorem replaceItem_createdAt_counterexample:
  "getProp (ex_heap ex_document
       [(''id'', JStr ''1''), (''createdAt'', JStr ''1999-12-31T00:00:00.000Z'')]) 0 ''createdAt''
     = JStr ''2017-01-01T00:00:00.000Z''
   \<and> fst (replaceItem ex_toISOString ex_base64
          (ex_heap ex_document
             [(''id'', JStr ''1''), (''createdAt'', JStr ''1999-12-31T00:00:00.000Z'')])
          (ex_request []) (JStr ''1'') (Some 0))
       = Inr (ReplaceDocument (JStr ''dbs/a/colls/b/docs/c'')
               [(''id'', JStr ''1''), (''createdAt'', JStr ''1999-12-31T00:00:00.000Z'')])"
  by (simp add: ex_eval)







end
